theory Spec2Isabelle
  imports Complex_Main "HOL-Library.Char_ord" "HOL-Library.List_Lexorder"
    "HOL-Library.Product_Lexorder"
begin

section \<open>Rental vs. Airbnb aggregation pipeline (program_script.py)\<close>

text \<open>
  The development embeds the statistical core of \<^verbatim>\<open>program_script.py\<close>.
  Pandas frames are lists of records (one record per row, in row order), a column that
  holds both strings and numbers is a list of \<open>cell\<close>s, and a missing value (NaN) of a
  column is \<open>None\<close>. Python floats are read as exact rationals: the halves, whole
  numbers and dollar amounts of the statements below are exact in binary floating point
  as well, while a quotient such as 5/3 is rounded by the program and exact here.
  Exceptions are values of \<open>py_error\<close>.
\<close>

subsection \<open>Values\<close>

datatype py_error = IndexError | TypeError | ValueError | KeyError | AttributeError

datatype cell = Num rat | Str string

subsection \<open>add_ratios: the two ratio columns\<close>

text \<open>
  One row of the frame built by \<^verbatim>\<open>df_aggregate\<close>, with its public column names.
  The two ratio columns do not exist before \<^verbatim>\<open>add_ratios\<close> runs; an absent (or
  NaN) ratio is \<open>None\<close>. \<open>rental_price_basic\<close> and \<open>rental_price_average\<close> are
  copies of the label column put through \<^verbatim>\<open>Series.replace\<close>, so they hold a number
  where the label was a key of the lookup table and the label itself otherwise.
\<close>

record aggregate_row =
  SA2 :: string
  Bedrooms :: string
  rental_count :: int
  Airbnb_count :: int
  rental_price :: string
  rental_price_basic :: cell
  rental_price_average :: cell
  Airbnb_price :: rat
  count_ratio :: "rat option"
  price_ratio :: "rat option"

text \<open>Lines 269-284: the value assigned to \<^verbatim>\<open>count_ratio\<close> for one row.\<close>

definition count_ratio_of :: "aggregate_row \<Rightarrow> rat" where
  "count_ratio_of row =
     (if Airbnb_count row = rental_count row then 0
      else if Airbnb_count row > rental_count row then
        (if rental_count row = 0
         then of_int (Airbnb_count row) * (- 1 / of_int (rental_count row + 1))
         else of_int (Airbnb_count row) * (- 1 / of_int (rental_count row)))
      else
        (if Airbnb_count row = 0
         then of_int (rental_count row) * (1 / of_int (Airbnb_count row + 1))
         else of_int (rental_count row) * (1 / of_int (Airbnb_count row))))"

text \<open>
  Lines 285-302: the value assigned to \<^verbatim>\<open>price_ratio\<close>. When the rental average
  is still a string (a label that is no key of the lookup table), \<^verbatim>\<open>==\<close> between
  a float and a string is false and the following \<^verbatim>\<open>>\<close> raises TypeError.
\<close>

definition price_ratio_of :: "aggregate_row \<Rightarrow> py_error + rat" where
  "price_ratio_of row =
     (case rental_price_average row of
        Str s \<Rightarrow> Inl TypeError
      | Num avg \<Rightarrow> Inr
         (if Airbnb_price row = avg then 0
          else if Airbnb_price row > avg then
            (if avg = 0
             then Airbnb_price row * (- 1 / (avg + 1))
             else Airbnb_price row * (- 1 / avg))
          else
            (if Airbnb_price row = 0
             then avg * (1 / (Airbnb_price row + 1))
             else avg * (1 / Airbnb_price row))))"

text \<open>The policy as section 4.6 of the specification words it, on a pair of numbers.\<close>

definition ratio_policy :: "rat \<Rightarrow> rat \<Rightarrow> rat" where
  "ratio_policy a b =
     (if a = b then 0
      else if a > b then (if b = 0 then a * (- 1 / (b + 1)) else a * (- 1 / b))
      else (if a = 0 then b * (1 / (a + 1)) else b * (1 / a)))"

text \<open>
  The loop of \<^verbatim>\<open>add_ratios\<close> (lines 268-302) writes into the frame it was given.
  \<^verbatim>\<open>iterrows\<close> hands out copies of the rows as they were when the loop started, and
  the loop only writes the two ratio columns, so each row is read unchanged. The
  result is the caller's frame as the loop leaves it, and the exception that stopped
  the loop, if any: the count ratio of the offending row is already written then.
\<close>

fun add_ratios_loop :: "aggregate_row list \<Rightarrow> aggregate_row list \<times> py_error option" where
  "add_ratios_loop [] = ([], None)"
| "add_ratios_loop (row # rest) =
     (let row1 = row\<lparr>count_ratio := Some (count_ratio_of row)\<rparr> in
      case price_ratio_of row of
        Inl e \<Rightarrow> (row1 # rest, Some e)
      | Inr p \<Rightarrow>
          (let row2 = row1\<lparr>price_ratio := Some p\<rparr>;
               (rest', err) = add_ratios_loop rest
           in (row2 # rest', err)))"

text \<open>
  Lines 303-305: the inner merge with the area frame, left keys first. An area row is
  its \<^verbatim>\<open>SA22018__1\<close> name and its geometry (any type \<open>'g\<close>); the merged row keeps
  both.
\<close>

definition merge_sa2 :: "(string \<times> 'g) list \<Rightarrow> aggregate_row list \<Rightarrow> ('g \<times> aggregate_row) list" where
  "merge_sa2 city_sa2 aggregate_df =
     concat (map (\<lambda>(name, geom). map (\<lambda>row. (geom, row)) (filter (\<lambda>row. SA2 row = name) aggregate_df))
                 city_sa2)"

text \<open>
  \<^verbatim>\<open>add_ratios\<close>: the first component is the frame the caller passed in, as it is
  after the call; the second is the returned frame, or the exception.
\<close>

definition add_ratios ::
  "aggregate_row list \<Rightarrow> (string \<times> 'g) list \<Rightarrow> aggregate_row list \<times> (py_error + ('g \<times> aggregate_row) list)" where
  "add_ratios aggregate_df city_sa2 =
     (case add_ratios_loop aggregate_df of
        (df', Some e) \<Rightarrow> (df', Inl e)
      | (df', None) \<Rightarrow> (df', Inr (merge_sa2 city_sa2 df')))"

subsection \<open>assign_rental_price: the weighted-median walk\<close>

text \<open>
  Lines 170-174, the inner \<^verbatim>\<open>while\<close>: \<open>row\<close> holds the counts of one frame row
  in the current slice of bucket columns. \<^verbatim>\<open>row[i]\<close> is positional; past the end
  it raises IndexError. The result is the pair \<open>(i, cumulative_sum)\<close> at loop exit.
  Every iteration reads exactly one bucket, \<open>row[i]\<close>, and then increments \<open>i\<close>, so
  the final \<open>i\<close> is also the number of bucket reads.
\<close>

function walk :: "int list \<Rightarrow> rat \<Rightarrow> nat \<Rightarrow> int \<Rightarrow> py_error + (nat \<times> int)" where
  "walk row median_position i cumulative_sum =
     (if of_int cumulative_sum < median_position then
        (if i < length row
         then walk row median_position (i + 1) (cumulative_sum + row ! i)
         else Inl IndexError)
      else Inr (i, cumulative_sum))"
  by pat_completeness auto
termination
  by (relation "measure (\<lambda>(row, m, i, c). length row - i)") auto

text \<open>
  Lines 168-178 for one row: the column position \<open>i - 1\<close> that is selected, \<open>None\<close>
  when \<^verbatim>\<open>cumulative_sum != 0\<close> fails and no row is appended.
\<close>

definition weighted_median :: "int list \<Rightarrow> py_error + int option" where
  "weighted_median row =
     (let total_weight = sum_list row;
          median_position = of_int total_weight * (1 / 2)
      in case walk row median_position 0 0 of
           Inl e \<Rightarrow> Inl e
         | Inr (i, cumulative_sum) \<Rightarrow>
             Inr (if cumulative_sum \<noteq> 0 then Some (int i - 1) else None))"

text \<open>
  The rule as section 4.3 of the specification words it: the running sum up to and
  including bucket \<open>k\<close>, and the first bucket whose running sum reaches the target.
\<close>

definition running_sum :: "int list \<Rightarrow> nat \<Rightarrow> int" where
  "running_sum row k = sum_list (take (Suc k) row)"

definition first_reaching :: "int list \<Rightarrow> rat \<Rightarrow> nat option" where
  "first_reaching row target =
     find (\<lambda>k. target \<le> of_int (running_sum row k)) [0..<length row]"

subsection \<open>Strings\<close>

text \<open>
  \<^verbatim>\<open>str.replace(old, new)\<close> with a literal pattern: every occurrence, left to right,
  without overlap. The program only calls it with a non-empty \<open>old\<close>; for an empty one
  the model returns the string as it is.
\<close>

function str_replace :: "string \<Rightarrow> string \<Rightarrow> string \<Rightarrow> string" where
  "str_replace old new [] = []"
| "str_replace old new (c # cs) =
     (if old \<noteq> [] \<and> take (length old) (c # cs) = old
      then new @ str_replace old new (drop (length old) (c # cs))
      else c # str_replace old new cs)"
  by pat_completeness auto
termination
  by (relation "measure (\<lambda>(old, new, s). length s)") auto

text \<open>\<^verbatim>\<open>like\<close> of \<^verbatim>\<open>DataFrame.filter\<close>: the label contains the text.\<close>

fun contains_str :: "string \<Rightarrow> string \<Rightarrow> bool" where
  "contains_str pat [] = (pat = [])"
| "contains_str pat (c # cs) = (take (length pat) (c # cs) = pat \<or> contains_str pat cs)"

text \<open>Decimal digits, and the text of a whole number.\<close>

definition decimal_digits :: string where
  "decimal_digits = ''0123456789''"

definition digit_val :: "char \<Rightarrow> nat option" where
  "digit_val c = map_of (zip decimal_digits [0, 1, 2, 3, 4, 5, 6, 7, 8, 9]) c"

definition digit_char :: "nat \<Rightarrow> char" where
  "digit_char d = decimal_digits ! (d mod 10)"

fun show_nat :: "nat \<Rightarrow> string" where
  "show_nat n = (if n < 10 then [digit_char n] else show_nat (n div 10) @ [digit_char (n mod 10)])"

text \<open>
  \<^verbatim>\<open>str\<close> of a float that holds a whole number below \<open>10^16\<close>: the digits and
  \<^verbatim>\<open>.0\<close>. The program converts only bedroom counts up to 7 this way.
\<close>

definition str_float :: "nat \<Rightarrow> string" where
  "str_float n = show_nat n @ ''.0''"

text \<open>The value of a string of digits, most significant first; \<open>None\<close> on any other character.\<close>

fun digits_val :: "nat \<Rightarrow> string \<Rightarrow> nat option" where
  "digits_val acc [] = Some acc"
| "digits_val acc (c # cs) =
     (case digit_val c of None \<Rightarrow> None | Some d \<Rightarrow> digits_val (10 * acc + d) cs)"

text \<open>
  The blank characters of Python in the ASCII range: what \<^verbatim>\<open>float\<close> strips and
  what \<^verbatim>\<open>\s\<close> matches.
\<close>

definition is_space :: "char \<Rightarrow> bool" where
  "is_space c \<longleftrightarrow>
     c \<in> set [CHR '' '', CHR 0x09, CHR 0x0A, CHR 0x0B, CHR 0x0C, CHR 0x0D,
               CHR 0x1C, CHR 0x1D, CHR 0x1E, CHR 0x1F]"

definition strip_blanks :: "string \<Rightarrow> string" where
  "strip_blanks s = rev (dropWhile is_space (rev (dropWhile is_space s)))"

text \<open>
  A run of digits in which single underscores may separate digits: the digits without the
  underscores, \<open>None\<close> when the text is no such run.
\<close>

fun digitpart :: "string \<Rightarrow> string option" where
  "digitpart [] = None"
| "digitpart [c] = (if digit_val c = None then None else Some [c])"
| "digitpart (c # d # cs) =
     (if digit_val c = None then None
      else if d = CHR ''_'' then map_option (\<lambda>ds. c # ds) (digitpart cs)
      else map_option (\<lambda>ds. c # ds) (digitpart (d # cs)))"

definition opt_digitpart :: "string \<Rightarrow> string option" where
  "opt_digitpart s = (if s = [] then Some [] else digitpart s)"

text \<open>The part before the exponent: digits, or digits around a point with a digit on a side.\<close>

definition mantissa :: "string \<Rightarrow> rat option" where
  "mantissa m =
     (let whole = takeWhile (\<lambda>c. c \<noteq> CHR ''.'') m;
          rest = dropWhile (\<lambda>c. c \<noteq> CHR ''.'') m
      in case rest of
           [] \<Rightarrow> (case digitpart whole of
                    None \<Rightarrow> None
                  | Some w \<Rightarrow> map_option of_nat (digits_val 0 w))
         | _ # digits_after \<Rightarrow>
             if whole = [] \<and> digits_after = [] then None
             else (case (opt_digitpart whole, opt_digitpart digits_after) of
                     (Some w, Some f) \<Rightarrow>
                       (case (digits_val 0 w, digits_val 0 f) of
                          (Some wv, Some fv) \<Rightarrow> Some (of_nat wv + of_nat fv / 10 ^ length f)
                        | _ \<Rightarrow> None)
                   | _ \<Rightarrow> None))"

text \<open>The part after \<^verbatim>\<open>e\<close> or \<^verbatim>\<open>E\<close>: an optional sign and digits.\<close>

definition exponent :: "string \<Rightarrow> int option" where
  "exponent ex =
     (let neg = (take 1 ex = ''-'');
          ds = (if take 1 ex = ''-'' \<or> take 1 ex = ''+'' then drop 1 ex else ex)
      in case digitpart ds of
           None \<Rightarrow> None
         | Some d \<Rightarrow> map_option (\<lambda>n. if neg then - int n else int n) (digits_val 0 d))"

definition unsigned_float :: "string \<Rightarrow> rat option" where
  "unsigned_float s =
     (let m = takeWhile (\<lambda>c. c \<noteq> CHR ''e'' \<and> c \<noteq> CHR ''E'') s;
          rest = dropWhile (\<lambda>c. c \<noteq> CHR ''e'' \<and> c \<noteq> CHR ''E'') s
      in case rest of
           [] \<Rightarrow> mantissa m
         | _ # ex \<Rightarrow>
             (case (mantissa m, exponent ex) of
                (Some v, Some e) \<Rightarrow> Some (if 0 \<le> e then v * 10 ^ nat e else v / 10 ^ nat (- e))
              | _ \<Rightarrow> None))"

text \<open>
  \<^verbatim>\<open>float(s)\<close> on the decimal notations of Python in ASCII: blanks around the
  number are dropped, then come an optional sign, the digits with an optional point, and
  an optional exponent; single underscores may separate digits. \<open>None\<close> is ValueError.
  The value is the exact rational, where Python rounds to the nearest float. The
  spellings of the values that are no numbers (\<^verbatim>\<open>inf\<close>, \<^verbatim>\<open>infinity\<close>,
  \<^verbatim>\<open>nan\<close>), digits and blanks outside ASCII, and exponents so large that Python
  returns infinity have no rational value and are outside the model, which rejects the
  former and returns the exact value for the latter.
\<close>

definition py_float :: "string \<Rightarrow> rat option" where
  "py_float s =
     (case strip_blanks s of
        [] \<Rightarrow> None
      | c # cs \<Rightarrow>
          if c = CHR ''-'' then map_option uminus (unsigned_float cs)
          else if c = CHR ''+'' then unsigned_float cs
          else unsigned_float (c # cs))"

subsection \<open>Constants\<close>

definition NA_REPLACEMENT :: int where
  "NA_REPLACEMENT = 0"

definition NIGHTS_IN_WEEK :: rat where
  "NIGHTS_IN_WEEK = 7"

definition BEDROOMS_ORDER :: "string list" where
  "BEDROOMS_ORDER = [''1'', ''2'', ''3'', ''4''] @ [''5'', ''6'', ''7'', ''8 or more'', ''total'']"

subsection \<open>airbnb_import\<close>

text \<open>
  One line of the listings file as \<^verbatim>\<open>read_csv\<close> returns it, with the columns the
  program reads. \<open>latlong\<close> stands for the pair of coordinate columns (any type
  \<open>'p\<close>), \<open>None\<close> is an empty field. Bedroom counts are whole numbers. A price is
  text, as in a file where prices carry the currency sign; a file whose prices are all
  plain numbers is read as a numeric column and is no input of this type.
\<close>

record 'p listing =
  latlong :: 'p
  room_type :: string
  price :: "string option"
  bedrooms :: "nat option"

text \<open>Lines 98-99: \<^verbatim>\<open>fillna\<close> of the bedrooms column of the listings.\<close>

definition fillna_bedrooms :: "'p listing \<Rightarrow> 'p listing" where
  "fillna_bedrooms l = l\<lparr>bedrooms := Some (case bedrooms l of None \<Rightarrow> 1 | Some n \<Rightarrow> n)\<rparr>"

text \<open>
  Line 100: the left spatial join of the area frame with the listings. \<open>contains\<close> is
  the predicate of the geometry library. Every area comes out, in the order of the area
  frame: once for every listing it contains, and once with empty listing columns when it
  contains none. A row is the area name, the price text and the bedroom count.
\<close>

definition sjoin_left ::
  "('g \<Rightarrow> 'p \<Rightarrow> bool) \<Rightarrow> (string \<times> 'g) list \<Rightarrow> 'p listing list \<Rightarrow> (string \<times> string option \<times> nat option) list" where
  "sjoin_left contains city_sa2 dataframe =
     concat (map (\<lambda>(name, geom).
        (case filter (\<lambda>l. contains geom (latlong l)) dataframe of
           [] \<Rightarrow> [(name, None, None)]
         | ms \<Rightarrow> map (\<lambda>l. (name, price l, bedrooms l)) ms)) city_sa2)"

text \<open>
  Lines 101-103 on one price cell: both characters are removed, the rest is parsed and
  multiplied by \<open>NIGHTS_IN_WEEK\<close>. An empty cell stays empty. Both patterns are
  single characters, which \<^verbatim>\<open>Series.str.replace\<close> takes literally.
\<close>

definition weekly_price :: "string \<Rightarrow> py_error + rat" where
  "weekly_price p =
     (case py_float (str_replace ''$'' '''' (str_replace '','' '''' p)) of
        None \<Rightarrow> Inl ValueError
      | Some v \<Rightarrow> Inr (v * NIGHTS_IN_WEEK))"

definition weekly_price_cell :: "string option \<Rightarrow> py_error + rat option" where
  "weekly_price_cell p =
     (case p of
        None \<Rightarrow> Inr None
      | Some s \<Rightarrow> (case weekly_price s of Inl e \<Rightarrow> Inl e | Inr v \<Rightarrow> Inr (Some v)))"

text \<open>
  Lines 106-108 on one bedrooms cell of the joined frame: counts above 7 become the text
  \<^verbatim>\<open>8 or more\<close>, the column is turned into text (NaN becomes \<^verbatim>\<open>nan\<close>) and
  \<^verbatim>\<open>.0\<close> is removed. On the texts that reach this point (\<^verbatim>\<open>nan\<close>,
  \<^verbatim>\<open>8 or more\<close> and a digit followed by \<^verbatim>\<open>.0\<close>) the pattern read as a
  regular expression removes the same characters as the literal one.
\<close>

definition bedrooms_category :: "nat option \<Rightarrow> string" where
  "bedrooms_category b =
     str_replace ''.0'' ''''
       (case b of
          None \<Rightarrow> ''nan''
        | Some n \<Rightarrow> if n > 7 then ''8 or more'' else str_float n)"

text \<open>The category a listing of the file ends up in: lines 98-99, then lines 106-108.\<close>

definition listing_category :: "'p listing \<Rightarrow> string" where
  "listing_category l = bedrooms_category (bedrooms (fillna_bedrooms l))"

text \<open>A row of the frame \<^verbatim>\<open>airbnb_import\<close> returns: area, bedrooms, weekly price.\<close>

type_synonym airbnb_row = "string \<times> string \<times> rat option"

fun convert_rows :: "(string \<times> string option \<times> nat option) list \<Rightarrow> py_error + airbnb_row list" where
  "convert_rows [] = Inr []"
| "convert_rows ((name, p, b) # rest) =
     (case weekly_price_cell p of
        Inl e \<Rightarrow> Inl e
      | Inr w \<Rightarrow>
          (case convert_rows rest of
             Inl e \<Rightarrow> Inl e
           | Inr rows \<Rightarrow> Inr ((name, bedrooms_category b, w) # rows)))"

text \<open>
  Lines 91-109. The price column is read as text when some line of the file has a price;
  when the file has lines and none of them has a price, the column is numeric and
  \<^verbatim>\<open>.str\<close> in line 101 raises AttributeError.
\<close>

definition airbnb_import ::
  "('g \<Rightarrow> 'p \<Rightarrow> bool) \<Rightarrow> 'p listing list \<Rightarrow> (string \<times> 'g) list \<Rightarrow> py_error + airbnb_row list" where
  "airbnb_import contains csv city_sa2 =
     (let dataframe = filter (\<lambda>l. room_type l = ''Entire home/apt'') csv;
          dataframe = map fillna_bedrooms dataframe;
          filtered_df = sjoin_left contains city_sa2 dataframe
      in if csv \<noteq> [] \<and> list_all (\<lambda>l. price l = None) csv then Inl AttributeError
         else convert_rows filtered_df)"

subsection \<open>Frames keyed by area and bedroom category\<close>

type_synonym key = "string \<times> string"

text \<open>\<^verbatim>\<open>unique()\<close>: the distinct values in order of first appearance.\<close>

definition unique :: "'a list \<Rightarrow> 'a list" where
  "unique xs = rev (remdups (rev xs))"

text \<open>
  The list comprehension of lines 145-146, 201-202 and 236-237: every area with every
  bedroom category, areas outermost.
\<close>

definition all_combinations :: "string list \<Rightarrow> string list \<Rightarrow> key list" where
  "all_combinations unique_sa2s unique_bedrooms =
     concat (map (\<lambda>sa2. map (\<lambda>bedroom. (sa2, bedroom)) unique_bedrooms) unique_sa2s)"

text \<open>
  \<^verbatim>\<open>pd.merge(left, right, on = [...], how = "right")\<close> where the right frame has
  only the key columns: the keys of the right frame in their order, each once for every
  left row with that key and once with NaN (\<open>None\<close>) when there is none.
\<close>

definition merge_right :: "(key \<times> 'v) list \<Rightarrow> key list \<Rightarrow> (key \<times> 'v option) list" where
  "merge_right left right =
     concat (map (\<lambda>k.
        (case filter (\<lambda>(k', v). k' = k) left of
           [] \<Rightarrow> [(k, None)]
         | ms \<Rightarrow> map (\<lambda>(k', v). (k, Some v)) ms)) right)"

definition fillna :: "'v \<Rightarrow> (key \<times> 'v option) list \<Rightarrow> (key \<times> 'v) list" where
  "fillna d df = map (\<lambda>(k, v). (k, case v of None \<Rightarrow> d | Some x \<Rightarrow> x)) df"

text \<open>
  \<^verbatim>\<open>sort_values(by = ["SA22018__1", "bedrooms"])\<close>: by area, then by bedroom text,
  both compared as Python compares strings. Rows with equal keys keep their order here.
\<close>

definition sort_values :: "(key \<times> 'v) list \<Rightarrow> (key \<times> 'v) list" where
  "sort_values df = sort_key fst df"

subsection \<open>airbnb_count\<close>

text \<open>Lines 136-138: one row per pair that occurs, sorted, with the number of its rows.\<close>

definition groupby_size :: "key list \<Rightarrow> (key \<times> int) list" where
  "groupby_size ks = map (\<lambda>k. (k, int (length (filter (\<lambda>k'. k' = k) ks)))) (sort (remdups ks))"

text \<open>Lines 139-141: the sizes summed per area, labelled \<^verbatim>\<open>total\<close>.\<close>

definition total_counts :: "(key \<times> int) list \<Rightarrow> (key \<times> int) list" where
  "total_counts airbnb_count_df =
     map (\<lambda>sa2. ((sa2, ''total''), sum_list (map snd (filter (\<lambda>(k, n). fst k = sa2) airbnb_count_df))))
         (sort (remdups (map (\<lambda>(k, n). fst k) airbnb_count_df)))"

text \<open>
  \<^verbatim>\<open>airbnb_count\<close> with the list of bedroom categories as an argument; the program
  passes \<open>BEDROOMS_ORDER\<close>. \<open>rental_index\<close> is the index of the rental frame.
\<close>

definition airbnb_count_with :: "string list \<Rightarrow> airbnb_row list \<Rightarrow> string list \<Rightarrow> (key \<times> int) list" where
  "airbnb_count_with unique_bedrooms city_airbnb_df rental_index =
     (let airbnb_count_df = groupby_size (map (\<lambda>(sa2, bedrooms, price). (sa2, bedrooms)) city_airbnb_df);
          airbnb_count_df = airbnb_count_df @ total_counts airbnb_count_df;
          unique_sa2s = unique rental_index
      in sort_values (fillna NA_REPLACEMENT
           (merge_right airbnb_count_df (all_combinations unique_sa2s unique_bedrooms))))"

definition airbnb_count :: "airbnb_row list \<Rightarrow> string list \<Rightarrow> (key \<times> int) list" where
  "airbnb_count = airbnb_count_with BEDROOMS_ORDER"

subsection \<open>airbnb_price\<close>

text \<open>The median of a group: NaN prices are skipped, a group without a price gives NaN.\<close>

definition median :: "rat option list \<Rightarrow> rat option" where
  "median ps =
     (let s = sort (concat (map (\<lambda>p. case p of None \<Rightarrow> [] | Some v \<Rightarrow> [v]) ps));
          n = length s
      in if n = 0 then None
         else if odd n then Some (s ! (n div 2))
         else Some ((s ! (n div 2 - 1) + s ! (n div 2)) / 2))"

definition airbnb_price_with :: "string list \<Rightarrow> airbnb_row list \<Rightarrow> string list \<Rightarrow> (key \<times> rat) list" where
  "airbnb_price_with unique_bedrooms city_airbnb_df rental_index =
     (let airbnb_price_df =
            map (\<lambda>k. (k, median (map (\<lambda>(sa2, bedrooms, price). price)
                                   (filter (\<lambda>(sa2, bedrooms, price). (sa2, bedrooms) = k) city_airbnb_df))))
                (sort (remdups (map (\<lambda>(sa2, bedrooms, price). (sa2, bedrooms)) city_airbnb_df)));
          total_median =
            map (\<lambda>a. ((a, ''total''), median (map (\<lambda>(sa2, bedrooms, price). price)
                                   (filter (\<lambda>(sa2, bedrooms, price). sa2 = a) city_airbnb_df))))
                (sort (remdups (map (\<lambda>(sa2, bedrooms, price). sa2) city_airbnb_df)));
          airbnb_price_df = airbnb_price_df @ total_median;
          unique_sa2s = unique rental_index
      in sort_values (map (\<lambda>(k, v). (k, case v of Some (Some x) \<Rightarrow> x | _ \<Rightarrow> of_int NA_REPLACEMENT))
           (merge_right airbnb_price_df (all_combinations unique_sa2s unique_bedrooms))))"

definition airbnb_price :: "airbnb_row list \<Rightarrow> string list \<Rightarrow> (key \<times> rat) list" where
  "airbnb_price = airbnb_price_with BEDROOMS_ORDER"

subsection \<open>The rental frame\<close>

text \<open>
  The frame \<^verbatim>\<open>dotstat_import\<close> returns: the area names, the column labels and the
  counts, one list per row with one count per column. Labels hold no line breaks.
\<close>

record rental_df =
  df_index :: "string list"
  df_columns :: "string list"
  df_rows :: "int list list"

definition select_cols :: "bool list \<Rightarrow> 'a list \<Rightarrow> 'a list" where
  "select_cols keep xs = map snd (filter fst (zip keep xs))"

definition filter_like :: "string \<Rightarrow> rental_df \<Rightarrow> rental_df" where
  "filter_like pat df =
     (let keep = map (contains_str pat) (df_columns df)
      in df\<lparr>df_columns := select_cols keep (df_columns df),
            df_rows := map (select_cols keep) (df_rows df)\<rparr>)"

subsection \<open>rental_count\<close>

text \<open>
  The start of a match of the regular expression \<^verbatim>\<open> bedrooms*\<close>: what follows the
  word and its optional plural.
\<close>

definition after_bedrooms :: "string \<Rightarrow> string option" where
  "after_bedrooms s =
     (if take 8 s = '' bedroom'' then Some (dropWhile (\<lambda>c. c = CHR ''s'') (drop 8 s)) else None)"

text \<open>
  Lines 123-125: every match of \<^verbatim>\<open> bedrooms*: Total households stated\<close> is removed.
\<close>

function strip_total_suffix :: "string \<Rightarrow> string" where
  "strip_total_suffix [] = []"
| "strip_total_suffix (c # cs) =
     (case after_bedrooms (c # cs) of
        None \<Rightarrow> c # strip_total_suffix cs
      | Some r \<Rightarrow>
          if take (length '': Total households stated'') r = '': Total households stated''
          then strip_total_suffix (drop (length '': Total households stated'') r)
          else c # strip_total_suffix cs)"
  by pat_completeness auto
termination
proof (relation "measure length")
  fix c :: char and cs r :: string
  assume "after_bedrooms (c # cs) = Some r"
  then have "r = dropWhile (\<lambda>c. c = CHR ''s'') (drop 8 (c # cs))"
    by (simp add: after_bedrooms_def split: if_splits)
  then have "length r \<le> length cs"
    using length_dropWhile_le [of "\<lambda>c. c = CHR ''s''" "drop 8 (c # cs)"] by simp
  then show "(drop (length '': Total households stated'') r, c # cs) \<in> measure length"
    by simp
qed simp_all

definition rental_bedrooms_label :: "string \<Rightarrow> string" where
  "rental_bedrooms_label col =
     str_replace ''Total households stated - number of'' ''total'' (strip_total_suffix col)"

text \<open>
  Lines 116-128, the function \<^verbatim>\<open>rental_count\<close> (named after the frame it
  returns, since \<open>rental_count\<close> is also a column of the aggregate frame).
  \<^verbatim>\<open>melt\<close> goes through the frame column by column; the rows are
  sorted by area and by the full column label, and the labels are shortened afterwards.
\<close>

definition rental_count_df :: "rental_df \<Rightarrow> (key \<times> int) list" where
  "rental_count_df rental_df =
     (let totals = filter_like '': Total households stated'' rental_df;
          melted = concat (map (\<lambda>(col, vals). map (\<lambda>(sa2, v). ((sa2, col), v)) (zip (df_index totals) vals))
                               (zip (df_columns totals) (transpose (df_rows totals))));
          rental_count_df = sort_values melted
      in map (\<lambda>((sa2, col), v). ((sa2, rental_bedrooms_label col), v)) rental_count_df)"

subsection \<open>assign_rental_price: the frame of selected buckets\<close>

text \<open>Python's list indexing: a negative index counts from the end.\<close>

definition py_get :: "'a list \<Rightarrow> int \<Rightarrow> py_error + 'a" where
  "py_get xs i =
     (if 0 \<le> i \<and> i < int (length xs) then Inr (xs ! nat i)
      else if i < 0 \<and> - int (length xs) \<le> i then Inr (xs ! nat (int (length xs) + i))
      else Inl IndexError)"

text \<open>
  Lines 179-180: the first match of \<^verbatim>\<open> bedrooms*: \S.*$\<close> runs to the end of the
  label, so what is left is the text before it.
\<close>

definition bedrooms_match :: "string \<Rightarrow> bool" where
  "bedrooms_match s =
     (case after_bedrooms s of
        None \<Rightarrow> False
      | Some r \<Rightarrow> take 2 r = '': '' \<and> (case drop 2 r of [] \<Rightarrow> False | c # _ \<Rightarrow> \<not> is_space c))"

fun strip_bucket_suffix :: "string \<Rightarrow> string" where
  "strip_bucket_suffix [] = []"
| "strip_bucket_suffix (c # cs) = (if bedrooms_match (c # cs) then [] else c # strip_bucket_suffix cs)"

definition price_bedrooms_label :: "string \<Rightarrow> string" where
  "price_bedrooms_label col =
     str_replace ''Total households stated - number of'' ''total'' (strip_bucket_suffix col)"

text \<open>
  Lines 184-187. \<^verbatim>\<open>^.*?(?=\$)\<close> matches at the start of the label only, and as
  little as possible: on a label that does not start with a dollar sign it removes what
  stands before the first one. On a label that starts with a dollar sign the first match
  is empty, and the substitution then looks for a non-empty match at the same place,
  which removes the text up to the next dollar sign. Afterwards the label that is exactly
  \<^verbatim>\<open>$100\<close> becomes \<^verbatim>\<open>Under $100\<close>.
\<close>

definition price_str_label :: "string \<Rightarrow> string" where
  "price_str_label col =
     (let s = (case col of
                 [] \<Rightarrow> []
               | c # cs \<Rightarrow>
                   if c = CHR ''$'' then
                     (if CHR ''$'' \<in> set cs then dropWhile (\<lambda>c. c \<noteq> CHR ''$'') cs else col)
                   else if CHR ''$'' \<in> set cs then dropWhile (\<lambda>c. c \<noteq> CHR ''$'') cs
                   else col)
      in if s = ''$100'' then ''Under $100'' else s)"

text \<open>
  Lines 167-189, the \<^verbatim>\<open>iterrows\<close> loop over one slice of bucket columns: \<open>cols\<close>
  are the labels of the slice, each row is an area name with its counts in the slice.
  A row is appended only when a bucket was selected.
\<close>

fun assign_rows :: "string list \<Rightarrow> (string \<times> int list) list \<Rightarrow> py_error + (key \<times> string) list" where
  "assign_rows cols [] = Inr []"
| "assign_rows cols ((index, row) # rest) =
     (case weighted_median row of
        Inl e \<Rightarrow> Inl e
      | Inr None \<Rightarrow> assign_rows cols rest
      | Inr (Some j) \<Rightarrow>
          (case py_get cols j of
             Inl e \<Rightarrow> Inl e
           | Inr col \<Rightarrow>
               (case assign_rows cols rest of
                  Inl e \<Rightarrow> Inl e
                | Inr rows \<Rightarrow> Inr (((index, price_bedrooms_label col), price_str_label col) # rows))))"

text \<open>
  Lines 165-191, the outer \<^verbatim>\<open>while\<close>: \<open>dollar\<close> is the frame of the columns whose
  label contains a dollar sign, cut into slices of 8 columns.
\<close>

function assign_slices :: "rental_df \<Rightarrow> nat \<Rightarrow> nat \<Rightarrow> py_error + (key \<times> string) list" where
  "assign_slices dollar min_col max_col =
     (if max_col \<le> length (df_columns dollar) then
        (case assign_rows (drop min_col (take max_col (df_columns dollar)))
                (zip (df_index dollar) (map (\<lambda>row. drop min_col (take max_col row)) (df_rows dollar))) of
           Inl e \<Rightarrow> Inl e
         | Inr new_rows \<Rightarrow>
             (case assign_slices dollar (min_col + 8) (max_col + 8) of
                Inl e \<Rightarrow> Inl e
              | Inr later_rows \<Rightarrow> Inr (new_rows @ later_rows)))
      else Inr [])"
  by pat_completeness auto
termination
  by (relation "measure (\<lambda>(dollar, min_col, max_col). Suc (length (df_columns dollar)) - max_col)") auto

definition assign_rental_price :: "rental_df \<Rightarrow> py_error + (key \<times> string) list" where
  "assign_rental_price rental_df = assign_slices (filter_like ''$'' rental_df) 0 8"

subsection \<open>fill_rental_price\<close>

text \<open>Lines 210-217: the two dictionaries, entry by entry.\<close>

definition basic_price_dict :: "(string \<times> rat) list" where
  "basic_price_dict =
     [(''0'', 0), (''Under $100'', 1), (''$100 - $149'', 3 / 2), (''$150 - $199'', 2),
      (''$200 - $299'', 3), (''$300 - $399'', 4), (''$400 - $499'', 5), (''$500  - $599'', 6),
      (''$600 and over'', 7)]"

definition average_price_dict :: "(string \<times> rat) list" where
  "average_price_dict =
     [(''0'', 0), (''Under $100'', 99 / 2), (''$100 - $149'', 249 / 2), (''$150 - $199'', 349 / 2),
      (''$200 - $299'', 499 / 2), (''$300 - $399'', 699 / 2), (''$400 - $499'', 899 / 2),
      (''$500  - $599'', 1099 / 2), (''$600 and over'', 800)]"

text \<open>
  \<^verbatim>\<open>Series.replace(dict)\<close> on one cell of a text column: the value of a key, and
  the text itself when it is no key.
\<close>

definition replace_dict :: "(string \<times> rat) list \<Rightarrow> string \<Rightarrow> cell" where
  "replace_dict d s = (case map_of d s of Some v \<Rightarrow> Num v | None \<Rightarrow> Str s)"

text \<open>
  A row of the filled frame: key, \<^verbatim>\<open>price_str\<close>, \<^verbatim>\<open>price_basic\<close> and
  \<^verbatim>\<open>price_average\<close>. The frame \<^verbatim>\<open>assign_rental_price\<close> returns when it appended
  no row has no columns at all, and reading its \<^verbatim>\<open>bedrooms\<close> column raises KeyError.
\<close>

type_synonym rental_price_row = "key \<times> string \<times> cell \<times> cell"

definition fill_rental_price :: "string list \<Rightarrow> (key \<times> string) list \<Rightarrow> py_error + rental_price_row list" where
  "fill_rental_price rental_index incomplete_rental_price =
     (if incomplete_rental_price = [] then Inl KeyError
      else
        (let unique_sa2s = unique rental_index;
             unique_bedrooms = unique (map (\<lambda>((sa2, bedrooms), price_str). bedrooms) incomplete_rental_price);
             rental_price_df = sort_values (fillna ''0''
               (merge_right incomplete_rental_price (all_combinations unique_sa2s unique_bedrooms)))
         in Inr (map (\<lambda>(k, price_str).
                   (k, price_str, replace_dict basic_price_dict price_str,
                    replace_dict average_price_dict price_str)) rental_price_df)))"

subsection \<open>df_aggregate\<close>

text \<open>
  Lines 252-261: the three joins are on the row index, that is by position, and the keys
  come from the rental counts. A frame on the right that is shorter than the rental
  counts would leave NaN cells in the joined rows; this case is outside the model and
  is the result \<open>None\<close>.
\<close>

definition df_aggregate ::
  "(key \<times> int) list \<Rightarrow> (key \<times> int) list \<Rightarrow> rental_price_row list \<Rightarrow> (key \<times> rat) list \<Rightarrow> aggregate_row list option" where
  "df_aggregate city_rental_count city_airbnb_count city_rental_price city_airbnb_price =
     (let n = length city_rental_count
      in if n \<le> length city_airbnb_count \<and> n \<le> length city_rental_price \<and> n \<le> length city_airbnb_price
         then Some (map (\<lambda>((((sa2, bedrooms), count), (k1, size)), ((k2, price_str, price_basic, price_average), (k3, price))).
                \<lparr>SA2 = sa2, Bedrooms = bedrooms, rental_count = count, Airbnb_count = size,
                 rental_price = price_str, rental_price_basic = price_basic,
                 rental_price_average = price_average, Airbnb_price = price,
                 count_ratio = None, price_ratio = None\<rparr>)
               (zip (zip city_rental_count city_airbnb_count) (zip city_rental_price city_airbnb_price)))
         else None)"

subsection \<open>main: from the inputs to the aggregate frame\<close>

text \<open>
  Lines 413-420 of \<^verbatim>\<open>main\<close>, with the three inputs as arguments: the rental frame,
  the area frame and the lines of the listings file. The list of bedroom categories that
  \<^verbatim>\<open>airbnb_count\<close> and \<^verbatim>\<open>airbnb_price\<close> complete to is an argument of the
  \<open>_with\<close> versions; the program has \<open>BEDROOMS_ORDER\<close>.
\<close>

definition filled_rental_price :: "rental_df \<Rightarrow> py_error + rental_price_row list" where
  "filled_rental_price rental_df =
     (case assign_rental_price rental_df of
        Inl e \<Rightarrow> Inl e
      | Inr incomplete \<Rightarrow> fill_rental_price (df_index rental_df) incomplete)"

definition aggregate_df_with ::
  "string list \<Rightarrow> ('g \<Rightarrow> 'p \<Rightarrow> bool) \<Rightarrow> rental_df \<Rightarrow> (string \<times> 'g) list \<Rightarrow> 'p listing list \<Rightarrow>
   py_error + aggregate_row list option" where
  "aggregate_df_with unique_bedrooms contains rental_df city_sa2 csv =
     (case airbnb_import contains csv city_sa2 of
        Inl e \<Rightarrow> Inl e
      | Inr city_airbnb_df \<Rightarrow>
         (let city_rental_count = rental_count_df rental_df;
              city_airbnb_count = airbnb_count_with unique_bedrooms city_airbnb_df (df_index rental_df)
          in case filled_rental_price rental_df of
               Inl e \<Rightarrow> Inl e
             | Inr city_rental_price \<Rightarrow>
                (let city_airbnb_price = airbnb_price_with unique_bedrooms city_airbnb_df (df_index rental_df)
                 in Inr (df_aggregate city_rental_count city_airbnb_count city_rental_price
                           city_airbnb_price))))"

text \<open>Line 420: the frame \<^verbatim>\<open>add_ratios\<close> returns for the aggregate frame.\<close>

definition city_agg_df_with ::
  "string list \<Rightarrow> ('g \<Rightarrow> 'p \<Rightarrow> bool) \<Rightarrow> rental_df \<Rightarrow> (string \<times> 'g) list \<Rightarrow> 'p listing list \<Rightarrow>
   py_error + ('g \<times> aggregate_row) list option" where
  "city_agg_df_with unique_bedrooms contains rental_df city_sa2 csv =
     (case aggregate_df_with unique_bedrooms contains rental_df city_sa2 csv of
        Inl e \<Rightarrow> Inl e
      | Inr None \<Rightarrow> Inr None
      | Inr (Some aggregate_df) \<Rightarrow>
          (case snd (add_ratios aggregate_df city_sa2) of
             Inl e \<Rightarrow> Inl e
           | Inr merged \<Rightarrow> Inr (Some merged)))"

definition city_agg_df ::
  "('g \<Rightarrow> 'p \<Rightarrow> bool) \<Rightarrow> rental_df \<Rightarrow> (string \<times> 'g) list \<Rightarrow> 'p listing list \<Rightarrow>
   py_error + ('g \<times> aggregate_row) list option" where
  "city_agg_df = city_agg_df_with BEDROOMS_ORDER"

subsection \<open>The specification's reading of the ratio step\<close>

text \<open>
  A row with both ratio columns filled in as section 4.6 says: the policy applied to the
  count pair and to the price pair, listing value first.
\<close>

definition with_ratios :: "aggregate_row \<Rightarrow> aggregate_row" where
  "with_ratios row =
     row\<lparr>count_ratio := Some (ratio_policy (of_int (Airbnb_count row)) (of_int (rental_count row))),
         price_ratio := (case rental_price_average row of
                           Num avg \<Rightarrow> Some (ratio_policy (Airbnb_price row) avg)
                         | Str s \<Rightarrow> price_ratio row)\<rparr>"


subsection \<open>Example inputs\<close>

text \<open>An aggregate row with listing values \<open>a\<close> and rental values \<open>b\<close> in both pairs.\<close>

definition ex_row :: "int \<Rightarrow> int \<Rightarrow> aggregate_row" where
  "ex_row a b =
     \<lparr>SA2 = ''A'', Bedrooms = ''1'', rental_count = b, Airbnb_count = a,
      rental_price = ''0'', rental_price_basic = Num 0, rental_price_average = Num (of_int b),
      Airbnb_price = of_int a, count_ratio = None, price_ratio = None\<rparr>"

text \<open>
  The keys of the two dictionaries, in the order of the dictionaries: the no-data label
  and the eight price bands as the program writes them (the band from 500 to 599 dollars
  with two blanks before the hyphen).
\<close>

definition bucket_labels :: "string list" where
  "bucket_labels =
     [''0'', ''Under $100'', ''$100 - $149'', ''$150 - $199'', ''$200 - $299'', ''$300 - $399'',
      ''$400 - $499'', ''$500  - $599'', ''$600 and over'']"

text \<open>
  In the examples the geometry of an area is its name and the position of a listing is the
  name of the area it lies in, so that the containment predicate is equality.
  \<open>ex_listing a b\<close> is a listing that lies in area \<open>a\<close> with bedroom field \<open>b\<close>,
  \<open>ex_sa2\<close> the area frame of the areas \<open>A\<close> and \<open>B\<close>.
\<close>

definition ex_listing :: "string \<Rightarrow> nat option \<Rightarrow> string listing" where
  "ex_listing a b =
     \<lparr>latlong = a, room_type = ''Entire home/apt'', price = Some ''$1,234.00'', bedrooms = b\<rparr>"

definition ex_sa2 :: "(string \<times> string) list" where
  "ex_sa2 = [(''A'', ''A''), (''B'', ''B'')]"

text \<open>
  Inputs for the end-to-end scenario. \<open>CATEGORIES\<close> are the column groups of the rental
  source (lines 19-21); each group has the eight price bands and the column of the stated
  total. \<open>block n\<close> is one group of a row with \<open>n\<close> households, all in the band from 300
  to 399 dollars.
\<close>

definition CATEGORIES :: "string list" where
  "CATEGORIES =
     [''1 bedroom'', ''2 bedrooms'', ''3 bedrooms'', ''4 bedrooms'', ''5 bedrooms'', ''6 bedrooms'',
      ''7 bedrooms'', ''8 or more bedrooms'', ''Total households stated - number of bedrooms'']"

definition group_columns :: "string list" where
  "group_columns = tl bucket_labels @ [''Total households stated'']"

definition columns_of :: "string list \<Rightarrow> string list" where
  "columns_of categories = concat (map (\<lambda>cat. map (\<lambda>c. cat @ '': '' @ c) group_columns) categories)"

definition block :: "int \<Rightarrow> int list" where
  "block n = [0, 0, 0, 0, n, 0, 0, 0, n]"

text \<open>
  Two areas. \<open>A\<close> has 5 rented one-bedroom households, one household in each larger
  category and 12 in total; \<open>B\<close> has none. Three listings with one bedroom lie in \<open>A\<close>,
  no listing lies in \<open>B\<close>.
\<close>

definition scenario_rental :: rental_df where
  "scenario_rental =
     \<lparr>df_index = [''A'', ''B''], df_columns = columns_of CATEGORIES,
      df_rows = [block 5 @ concat (replicate 7 (block 1)) @ block 12, concat (replicate 9 (block 0))]\<rparr>"

definition scenario_csv :: "string listing list" where
  "scenario_csv =
     replicate 3 \<lparr>latlong = ''A'', room_type = ''Entire home/apt'', price = Some ''$100'', bedrooms = Some 1\<rparr>"

text \<open>The same scenario with only the two categories the specification names.\<close>

definition scenario_rental_two :: rental_df where
  "scenario_rental_two =
     \<lparr>df_index = [''A'', ''B''],
      df_columns = columns_of [''1 bedroom'', ''Total households stated - number of bedrooms''],
      df_rows = [block 5 @ block 5, block 0 @ block 0]\<rparr>"

text \<open>A rental frame in which only the one-bedroom group of area \<open>A\<close> has any household.\<close>

definition sparse_rental :: rental_df where
  "sparse_rental =
     \<lparr>df_index = [''A''], df_columns = columns_of CATEGORIES,
      df_rows = [block 5 @ concat (replicate 8 (block 0))]\<rparr>"

text \<open>A rental frame of one area in which every count is zero.\<close>

definition zero_rental :: rental_df where
  "zero_rental =
     \<lparr>df_index = [''A''], df_columns = columns_of CATEGORIES,
      df_rows = [concat (replicate 9 (block 0))]\<rparr>"

text \<open>
  The number of rows of a returned frame and, for its rows with the given key, the listing
  count, the rental count and the count ratio.
\<close>

definition frame_summary ::
  "key \<Rightarrow> py_error + ('g \<times> aggregate_row) list option \<Rightarrow> py_error + (nat \<times> (int \<times> int \<times> rat option) list) option" where
  "frame_summary k result =
     (case result of
        Inl e \<Rightarrow> Inl e
      | Inr None \<Rightarrow> Inr None
      | Inr (Some df) \<Rightarrow>
          Inr (Some (length df,
                     map (\<lambda>(g, row). (Airbnb_count row, rental_count row, count_ratio row))
                         (filter (\<lambda>(g, row). (SA2 row, Bedrooms row) = k) df))))"

section \<open>Properties\<close>

lemma count_ratio_of_policy:
  "count_ratio_of row = ratio_policy (of_int (Airbnb_count row)) (of_int (rental_count row))"
  by (simp add: count_ratio_of_def ratio_policy_def)

lemma price_ratio_of_policy:
  "rental_price_average row = Num avg \<Longrightarrow>
   price_ratio_of row = Inr (ratio_policy (Airbnb_price row) avg)"
  by (simp add: price_ratio_of_def ratio_policy_def)


subsection \<open>The ratio columns\<close>

lemma add_ratios_loop_numeric:
  "\<forall>row\<in>set df. \<exists>avg. rental_price_average row = Num avg \<Longrightarrow>
   add_ratios_loop df = (map with_ratios df, None)"
proof (induction df)
  case Nil
  then show ?case by simp
next
  case (Cons row df)
  then obtain avg where avg: "rental_price_average row = Num avg" by auto
  have rest: "add_ratios_loop df = (map with_ratios df, None)" using Cons by simp
  show ?case
    by (simp add: rest avg price_ratio_of_policy [OF avg] count_ratio_of_policy with_ratios_def)
qed

lemma ratio_policy_neg: "ratio_policy a b = - ratio_policy b a"
  by (auto simp: ratio_policy_def)

text \<open>
  Claim C1. On a frame whose rental averages are numbers, \<^verbatim>\<open>add_ratios\<close> leaves in
  every row the count ratio and the price ratio of the piecewise policy of section 4.6,
  applied to (listing count, rental count) and to (listing price, rental average price):
  the two if-chains of the program compute the policy for every row, and the policy gives
  0 at (0,0), -5 at (5,0) and 5 at (0,5).
\<close>

theorem ratio_piecewise_policy:
  assumes "\<forall>row\<in>set df. \<exists>avg. rental_price_average row = Num avg"
  shows "fst (add_ratios df city_sa2) = map with_ratios df
    \<and> (\<forall>row\<in>set df. count_ratio_of row = ratio_policy (of_int (Airbnb_count row)) (of_int (rental_count row))
         \<and> (\<forall>avg. rental_price_average row = Num avg \<longrightarrow>
              price_ratio_of row = Inr (ratio_policy (Airbnb_price row) avg)))
    \<and> ratio_policy 0 0 = 0 \<and> ratio_policy 5 0 = - 5 \<and> ratio_policy 0 5 = 5"
proof -
  have "fst (add_ratios df city_sa2) = map with_ratios df"
    by (simp add: add_ratios_def add_ratios_loop_numeric [OF assms])
  moreover have "ratio_policy 0 0 = 0 \<and> ratio_policy 5 0 = - 5 \<and> ratio_policy 0 5 = 5"
    by (simp add: ratio_policy_def)
  ultimately show ?thesis
    by (simp add: count_ratio_of_policy price_ratio_of_policy)
qed

theorem ratio_piecewise_policy_witness:
  "map (\<lambda>row. (count_ratio row, price_ratio row))
     (fst (add_ratios [ex_row 0 0, ex_row 5 0, ex_row 0 5, ex_row 6 4] ([] :: (string \<times> unit) list)))
   = [(Some 0, Some 0), (Some (- 5), Some (- 5)), (Some 5, Some 5), (Some (- (3 / 2)), Some (- (3 / 2)))]"
  using ratio_piecewise_policy [of "[ex_row 0 0, ex_row 5 0, ex_row 0 5, ex_row 6 4]" "[] :: (string \<times> unit) list"]
  by (simp add: ex_row_def with_ratios_def ratio_policy_def)

text \<open>
  Claim C5. For listing and rental values that are both non-zero and different, swapping
  the two values negates the ratio exactly: this holds for the count ratio the program
  computes, for its price ratio and for the policy of the specification, and the ratio
  is not zero there.
\<close>

theorem ratio_sign_flip:
  assumes "a \<noteq> 0" "b \<noteq> 0" "a \<noteq> b" "p \<noteq> 0" "q \<noteq> 0" "p \<noteq> q"
  shows "count_ratio_of (row\<lparr>Airbnb_count := a, rental_count := b\<rparr>)
           = - count_ratio_of (row\<lparr>Airbnb_count := b, rental_count := a\<rparr>)
    \<and> (\<exists>x. price_ratio_of (row\<lparr>Airbnb_price := p, rental_price_average := Num q\<rparr>) = Inr x
           \<and> price_ratio_of (row\<lparr>Airbnb_price := q, rental_price_average := Num p\<rparr>) = Inr (- x)
           \<and> x \<noteq> 0)
    \<and> ratio_policy p q = - ratio_policy q p"
proof -
  have c: "count_ratio_of (row\<lparr>Airbnb_count := a, rental_count := b\<rparr>)
           = - count_ratio_of (row\<lparr>Airbnb_count := b, rental_count := a\<rparr>)"
    using ratio_policy_neg [of "of_int a" "of_int b"] by (simp add: count_ratio_of_policy)
  have nz: "ratio_policy p q \<noteq> 0" using assms(4-6) by (auto simp: ratio_policy_def)
  have p: "price_ratio_of (row\<lparr>Airbnb_price := p, rental_price_average := Num q\<rparr>) = Inr (ratio_policy p q)"
    by (simp add: price_ratio_of_policy)
  have q: "price_ratio_of (row\<lparr>Airbnb_price := q, rental_price_average := Num p\<rparr>) = Inr (- ratio_policy p q)"
    using ratio_policy_neg [of p q] by (simp add: price_ratio_of_policy)
  show ?thesis using c p q nz ratio_policy_neg [of p q] by blast
qed

theorem ratio_sign_flip_witness:
  "count_ratio_of (ex_row 6 4) = - (3 / 2) \<and> count_ratio_of (ex_row 4 6) = 3 / 2
   \<and> price_ratio_of (ex_row 6 4) = Inr (- (3 / 2)) \<and> price_ratio_of (ex_row 4 6) = Inr (3 / 2)"
  using ratio_sign_flip [of 6 4 6 4 "ex_row 0 0"]
  by (simp add: ex_row_def count_ratio_of_def price_ratio_of_def)

subsection \<open>The weighted-median walk\<close>

lemma walk_step:
  "of_int c < m \<Longrightarrow> i < length row \<Longrightarrow> walk row m i c = walk row m (Suc i) (c + row ! i)"
  by simp

lemma sum_take_Suc:
  "i < length row \<Longrightarrow> sum_list (take (Suc i) row) = sum_list (take i row) + row ! i"
  by (simp add: take_Suc_conv_app_nth)

text \<open>
  The loop invariant: started at position \<open>i\<close> with the sum of the first \<open>i\<close> buckets,
  the walk stops right after the first bucket \<open>k\<close> whose running sum reaches \<open>m\<close>.
\<close>

lemma walk_reaches:
  assumes "i \<le> k" "k < length row" "m \<le> of_int (running_sum row k)"
    "\<forall>j. i \<le> j \<and> j < k \<longrightarrow> of_int (running_sum row j) < m"
    "c = sum_list (take i row)" "of_int c < m"
  shows "walk row m i c = Inr (Suc k, running_sum row k)"
  using assms
proof (induction "k - i" arbitrary: i c)
  case 0
  then have ik: "i = k" by simp
  have "walk row m i c = walk row m (Suc i) (c + row ! i)"
    using 0 ik by (simp del: walk.simps add: walk_step)
  also have "c + row ! i = running_sum row k"
    using 0 ik by (simp add: running_sum_def sum_take_Suc)
  also have "walk row m (Suc i) (running_sum row k) = Inr (Suc k, running_sum row k)"
    using 0 ik by simp
  finally show ?case .
next
  case (Suc d)
  then have lt: "i < k" by simp
  have il: "i < length row" using Suc lt by simp
  have st: "walk row m i c = walk row m (Suc i) (c + row ! i)"
    using Suc il by (simp del: walk.simps add: walk_step)
  have c': "c + row ! i = sum_list (take (Suc i) row)"
    using Suc il by (simp add: sum_take_Suc)
  have small: "of_int (c + row ! i) < m"
    using Suc.prems(4) lt c' by (simp add: running_sum_def)
  have "walk row m (Suc i) (c + row ! i) = Inr (Suc k, running_sum row k)"
  proof (rule Suc.hyps(1))
    show "d = k - Suc i" using Suc.hyps(2) by simp
    show "Suc i \<le> k" using lt by simp
    show "k < length row" by fact
    show "m \<le> of_int (running_sum row k)" by fact
    show "\<forall>j. Suc i \<le> j \<and> j < k \<longrightarrow> of_int (running_sum row j) < m"
      using Suc.prems(4) by simp
    show "c + row ! i = sum_list (take (Suc i) row)" by fact
    show "of_int (c + row ! i) < m" by fact
  qed
  with st show ?case by simp
qed

lemma find_upt_Some:
  "find P [0..<n] = Some k \<Longrightarrow> k < n \<and> P k \<and> (\<forall>j<k. \<not> P j)"
  by (auto simp: find_Some_iff)

lemma find_upt_None: "find P [0..<n] = None \<longleftrightarrow> (\<forall>k<n. \<not> P k)"
  by (auto simp: find_None_iff)

lemma first_reaching_Some:
  "first_reaching row m = Some k \<Longrightarrow>
   k < length row \<and> m \<le> of_int (running_sum row k) \<and> (\<forall>j<k. of_int (running_sum row j) < m)"
  unfolding first_reaching_def by (auto dest: find_upt_Some simp: not_le)

lemma first_reaching_exists:
  assumes "0 < sum_list row"
  shows "\<exists>k. first_reaching row (of_int (sum_list row) * (1 / 2)) = Some k"
proof -
  have ne: "row \<noteq> []" using assms by auto
  then have "length row - 1 < length row" by (cases row) auto
  moreover have "running_sum row (length row - 1) = sum_list row"
    using ne by (simp add: running_sum_def)
  then have "of_int (sum_list row) * (1 / 2) \<le> (of_int (running_sum row (length row - 1)) :: rat)"
    using assms by simp
  ultimately have "\<not> (\<forall>k<length row. \<not> (of_int (sum_list row) * (1 / 2) \<le> (of_int (running_sum row k) :: rat)))"
    by blast
  then have "first_reaching row (of_int (sum_list row) * (1 / 2)) \<noteq> None"
    unfolding first_reaching_def find_upt_None by blast
  then show ?thesis by auto
qed

lemma walk_first_reaching:
  assumes "first_reaching row m = Some k" "0 < m"
  shows "walk row m 0 0 = Inr (Suc k, running_sum row k)"
  by (rule walk_reaches) (use first_reaching_Some [OF assms(1)] assms(2) in auto)

lemma walk_positive_total:
  assumes "0 < sum_list row"
  shows "\<exists>k. first_reaching row (of_int (sum_list row) * (1 / 2)) = Some k
           \<and> walk row (of_int (sum_list row) * (1 / 2)) 0 0 = Inr (Suc k, running_sum row k)
           \<and> running_sum row k \<noteq> 0"
proof -
  let ?m = "of_int (sum_list row) * (1 / 2) :: rat"
  obtain k where k: "first_reaching row ?m = Some k"
    using first_reaching_exists [OF assms] by blast
  have mpos: "0 < ?m" using assms by simp
  have w: "walk row ?m 0 0 = Inr (Suc k, running_sum row k)"
    by (rule walk_first_reaching [OF k mpos])
  have "?m \<le> of_int (running_sum row k)" using first_reaching_Some [OF k] by simp
  with mpos have "running_sum row k \<noteq> 0" by auto
  with w k show ?thesis by blast
qed

lemma walk_no_total:
  "sum_list row \<le> 0 \<Longrightarrow> walk row (of_int (sum_list row) * (1 / 2)) 0 0 = Inr (0, 0)"
  by simp

lemma weighted_median_positive:
  assumes "0 < sum_list row"
  shows "\<exists>k. first_reaching row (of_int (sum_list row) * (1 / 2)) = Some k
           \<and> weighted_median row = Inr (Some (int k))"
proof -
  obtain k where k: "first_reaching row (of_int (sum_list row) * (1 / 2)) = Some k"
    "walk row (of_int (sum_list row) * (1 / 2)) 0 0 = Inr (Suc k, running_sum row k)"
    "running_sum row k \<noteq> 0"
    using walk_positive_total [OF assms] by blast
  then show ?thesis by (simp add: weighted_median_def del: walk.simps)
qed

lemma weighted_median_no_total:
  "sum_list row \<le> 0 \<Longrightarrow> weighted_median row = Inr None"
  by (simp add: weighted_median_def)



subsection \<open>Completion of the selected buckets\<close>

lemma set_unique: "set (unique xs) = set xs"
  by (simp add: unique_def)

lemma distinct_unique: "distinct (unique xs)"
  by (simp add: unique_def)

lemma set_all_combinations: "set (all_combinations as bs) = set as \<times> set bs"
  by (auto simp: all_combinations_def)

lemma merge_right_absent:
  assumes "k \<in> set right" "k \<notin> fst ` set left"
  shows "(k, None) \<in> set (merge_right left right)"
proof -
  have "filter (\<lambda>(k', v). k' = k) left = []"
    using assms(2) by (force simp: filter_empty_conv image_iff)
  then show ?thesis using assms(1) by (force simp: merge_right_def)
qed

text \<open>
  A pair of a known area and a bedroom category that occurs in the selected rows, for
  which no bucket was selected, comes out of \<^verbatim>\<open>fill_rental_price\<close> with the label
  \<^verbatim>\<open>0\<close> and both prices 0.
\<close>

lemma fill_rental_price_default:
  assumes "sa2 \<in> set rental_index" "b \<in> (snd \<circ> fst) ` set incomplete"
    "(sa2, b) \<notin> fst ` set incomplete"
  shows "\<exists>rows. fill_rental_price rental_index incomplete = Inr rows
           \<and> ((sa2, b), ''0'', Num 0, Num 0) \<in> set rows"
proof -
  have ne: "incomplete \<noteq> []" using assms(2) by auto
  let ?bs = "unique (map (\<lambda>((sa2, bedrooms), price_str). bedrooms) incomplete)"
  have "b \<in> set ?bs" using assms(2) by (force simp: set_unique)
  then have "(sa2, b) \<in> set (all_combinations (unique rental_index) ?bs)"
    using assms(1) by (simp add: set_all_combinations set_unique)
  then have "((sa2, b), None) \<in> set (merge_right incomplete (all_combinations (unique rental_index) ?bs))"
    using assms(3) by (rule merge_right_absent)
  then have "((sa2, b), ''0'') \<in> set (sort_values (fillna ''0''
      (merge_right incomplete (all_combinations (unique rental_index) ?bs))))"
    by (force simp: sort_values_def fillna_def)
  then have "((sa2, b), ''0'', replace_dict basic_price_dict ''0'', replace_dict average_price_dict ''0'')
      \<in> set (map (\<lambda>(k, price_str). (k, price_str, replace_dict basic_price_dict price_str,
                    replace_dict average_price_dict price_str))
            (sort_values (fillna ''0'' (merge_right incomplete (all_combinations (unique rental_index) ?bs)))))"
    by force
  moreover have "replace_dict basic_price_dict ''0'' = Num 0" "replace_dict average_price_dict ''0'' = Num 0"
    by (simp_all add: replace_dict_def basic_price_dict_def average_price_dict_def)
  ultimately show ?thesis using ne by (simp add: fill_rental_price_def Let_def)
qed

text \<open>
  The selector on one row, for every row of bucket counts with total weight \<open>t\<close> and
  target \<open>t * 0.5\<close>: when \<open>t\<close> is positive it returns the first bucket \<open>k\<close> whose
  running sum is greater than or equal to the target (every earlier running sum is
  strictly smaller, so a tie goes to the first such bucket); when \<open>t\<close> is zero it returns
  no selection, without an error.
\<close>

lemma weighted_median_first_bucket:
  "(0 < sum_list row \<longrightarrow>
      (\<exists>k. first_reaching row (of_int (sum_list row) * (1 / 2)) = Some k
          \<and> k < length row
          \<and> of_int (sum_list row) * (1 / 2) \<le> (of_int (running_sum row k) :: rat)
          \<and> (\<forall>j<k. (of_int (running_sum row j) :: rat) < of_int (sum_list row) * (1 / 2))
          \<and> weighted_median row = Inr (Some (int k))))
   \<and> (sum_list row = 0 \<longrightarrow>
        weighted_median row = Inr None
        \<and> assign_rows cols ((index, row) # rest) = assign_rows cols rest)"
proof (intro conjI impI)
  assume pos: "0 < sum_list row"
  then obtain k where k: "first_reaching row (of_int (sum_list row) * (1 / 2)) = Some k"
    "weighted_median row = Inr (Some (int k))"
    using weighted_median_positive by blast
  from first_reaching_Some [OF k(1)] k
  show "\<exists>k. first_reaching row (of_int (sum_list row) * (1 / 2)) = Some k
          \<and> k < length row
          \<and> of_int (sum_list row) * (1 / 2) \<le> (of_int (running_sum row k) :: rat)
          \<and> (\<forall>j<k. (of_int (running_sum row j) :: rat) < of_int (sum_list row) * (1 / 2))
          \<and> weighted_median row = Inr (Some (int k))"
    by blast
next
  assume "sum_list row = 0"
  then show "weighted_median row = Inr None" by (simp add: weighted_median_no_total)
next
  assume "sum_list row = 0"
  then have "weighted_median row = Inr None" by (simp add: weighted_median_no_total)
  then show "assign_rows cols ((index, row) # rest) = assign_rows cols rest" by simp
qed

text \<open>
  The row that \<^verbatim>\<open>assign_rental_price\<close> appends for a row of positive total weight:
  the area, and the bedroom category and the price label cut out of the label of the
  selected column.
\<close>

lemma assign_rows_emits:
  assumes "first_reaching row (of_int (sum_list row) * (1 / 2)) = Some k"
    "0 < sum_list row" "k < length cols"
  shows "assign_rows cols ((index, row) # rest) =
           (case assign_rows cols rest of
              Inl e \<Rightarrow> Inl e
            | Inr rows \<Rightarrow>
                Inr (((index, price_bedrooms_label (cols ! k)), price_str_label (cols ! k)) # rows))"
proof -
  obtain k' where k': "first_reaching row (of_int (sum_list row) * (1 / 2)) = Some k'"
    "weighted_median row = Inr (Some (int k'))"
    using weighted_median_positive [OF assms(2)] by blast
  with assms(1) have w: "weighted_median row = Inr (Some (int k))" by simp
  have g: "py_get cols (int k) = Inr (cols ! k)"
    using assms(3) by (simp add: py_get_def)
  show ?thesis by (simp add: w g)
qed

text \<open>
  Claim C2, evaluated on the program. The selector does what the claim says: for the
  counts 10, 0, 0, 0, 0, 0, 0, 0, 0 it selects the first bucket, and for a row of zeros it
  selects nothing, without an error, so that no row is appended for that key. The
  completion step, however, fills such a key only when its bedroom category has a
  selected bucket in some area. In \<open>sparse_rental\<close> only the one-bedroom group has
  households: the key (\<open>A\<close>, 2) has total weight zero and the filled frame has no row for
  it. In \<open>zero_rental\<close> every count is zero: \<^verbatim>\<open>assign_rental_price\<close> returns its
  empty frame and \<^verbatim>\<open>fill_rental_price\<close> raises KeyError.
\<close>

theorem zero_weight_key_not_filled:
  "weighted_median [10, 0, 0, 0, 0, 0, 0, 0, 0] = Inr (Some 0)
   \<and> weighted_median [0, 0, 0, 0, 0, 0, 0, 0] = Inr None
   \<and> assign_rental_price sparse_rental = Inr [((''A'', ''1''), ''$300 - $399'')]
   \<and> map_sum id (\<lambda>rows. map_of rows (''A'', ''1'')) (filled_rental_price sparse_rental)
       = Inr (Some (''$300 - $399'', Num 4, Num 349.5))
   \<and> map_sum id (\<lambda>rows. map_of rows (''A'', ''2'')) (filled_rental_price sparse_rental) = Inr None
   \<and> assign_rental_price zero_rental = Inr []
   \<and> filled_rental_price zero_rental = Inl KeyError"
proof (intro conjI)
  show "weighted_median [10, 0, 0, 0, 0, 0, 0, 0, 0] = Inr (Some 0)"
    by (simp add: weighted_median_def)
  show "weighted_median [0, 0, 0, 0, 0, 0, 0, 0] = Inr None"
    by (simp add: weighted_median_def)
  show "assign_rental_price sparse_rental = Inr [((''A'', ''1''), ''$300 - $399'')]"
    by code_simp
  show "map_sum id (\<lambda>rows. map_of rows (''A'', ''1'')) (filled_rental_price sparse_rental)
       = Inr (Some (''$300 - $399'', Num 4, Num 349.5))"
    by code_simp
  show "map_sum id (\<lambda>rows. map_of rows (''A'', ''2'')) (filled_rental_price sparse_rental) = Inr None"
    by code_simp
  show "assign_rental_price zero_rental = Inr []"
    by code_simp
  show "filled_rental_price zero_rental = Inl KeyError"
    by code_simp
qed

text \<open>
  Claim C10. For a row of non-negative bucket counts the walk returns, without reading
  past the end of the row: when the total weight is positive the index stops between 1
  and the number of buckets (at most 8 for a slice of 8), and the selected position
  \<open>i - 1\<close> is a position of the row; when the total weight is zero the index stays 0,
  so no bucket was read.
\<close>

theorem walk_stays_in_bounds:
  assumes "\<forall>c\<in>set row. 0 \<le> c"
  shows "\<exists>i c. walk row (of_int (sum_list row) * (1 / 2)) 0 0 = Inr (i, c)
            \<and> (0 < sum_list row \<longrightarrow> 1 \<le> i \<and> i \<le> length row \<and> (length row = 8 \<longrightarrow> i \<le> 8)
                 \<and> weighted_median row = Inr (Some (int i - 1))
                 \<and> 0 \<le> int i - 1 \<and> int i - 1 < int (length row))
            \<and> (sum_list row = 0 \<longrightarrow> i = 0 \<and> weighted_median row = Inr None)"
proof -
  have nonneg: "0 \<le> sum_list row" using assms by (simp add: sum_list_nonneg)
  show ?thesis
  proof (cases "0 < sum_list row")
    case True
    then obtain k where k: "first_reaching row (of_int (sum_list row) * (1 / 2)) = Some k"
      "walk row (of_int (sum_list row) * (1 / 2)) 0 0 = Inr (Suc k, running_sum row k)"
      "running_sum row k \<noteq> 0"
      using walk_positive_total by blast
    have "k < length row" using first_reaching_Some [OF k(1)] by simp
    moreover have "weighted_median row = Inr (Some (int (Suc k) - 1))"
      using k by (simp add: weighted_median_def del: walk.simps)
    ultimately show ?thesis using k(2) True by (intro exI [of _ "Suc k"] exI [of _ "running_sum row k"]) auto
  next
    case False
    with nonneg have z: "sum_list row = 0" by simp
    then have "walk row (of_int (sum_list row) * (1 / 2)) 0 0 = Inr (0, 0)" by simp
    moreover have "weighted_median row = Inr None" using z by (simp add: weighted_median_no_total)
    ultimately show ?thesis using z by (intro exI [of _ 0] exI [of _ 0]) simp
  qed
qed

theorem walk_stays_in_bounds_witness:
  "walk [0, 0, 0, 0, 5, 0, 0, 0] (5 / 2) 0 0 = Inr (5, 5)
   \<and> walk [0, 0, 0, 0, 0, 0, 0, 0] 0 0 0 = Inr (0, 0)
   \<and> walk [0, 0, 0, 0, 0, 0, 0, 7] (7 / 2) 0 0 = Inr (8, 7)"
  using walk_stays_in_bounds [of "[0, 0, 0, 0, 5, 0, 0, 0]"]
    walk_stays_in_bounds [of "[0, 0, 0, 0, 0, 0, 0, 0]"]
    walk_stays_in_bounds [of "[0, 0, 0, 0, 0, 0, 0, 7]"]
  by simp



subsection \<open>Listings: price and bedroom category\<close>


lemma convert_rows_member:
  "convert_rows joined = Inr rows \<Longrightarrow> (name, p, b) \<in> set joined \<Longrightarrow>
   \<exists>w. weekly_price_cell p = Inr w \<and> (name, bedrooms_category b, w) \<in> set rows"
proof (induction joined arbitrary: rows)
  case Nil
  then show ?case by simp
next
  case (Cons j joined)
  obtain n' p' b' where j: "j = (n', p', b')" by (cases j) auto
  from Cons.prems(1) j obtain w' rows' where
    w': "weekly_price_cell p' = Inr w'" and r': "convert_rows joined = Inr rows'"
    and rows: "rows = (n', bedrooms_category b', w') # rows'"
    by (auto split: sum.splits)
  show ?case
  proof (cases "(name, p, b) = j")
    case True
    then show ?thesis using j w' rows by auto
  next
    case False
    then have "(name, p, b) \<in> set joined" using Cons.prems(2) by auto
    from Cons.IH [OF r' this] show ?thesis using rows by auto
  qed
qed

lemma sjoin_left_member:
  assumes "(name, geom) \<in> set city_sa2" "l \<in> set dataframe" "contains geom (latlong l)"
  shows "(name, price l, bedrooms l) \<in> set (sjoin_left contains city_sa2 dataframe)"
proof -
  have l: "l \<in> set (filter (\<lambda>l. contains geom (latlong l)) dataframe)"
    using assms(2,3) by simp
  then have "(name, price l, bedrooms l) \<in> set (case filter (\<lambda>l. contains geom (latlong l)) dataframe of
           [] \<Rightarrow> [(name, None, None)]
         | ms \<Rightarrow> map (\<lambda>l. (name, price l, bedrooms l)) ms)"
    by (cases "filter (\<lambda>l. contains geom (latlong l)) dataframe") (auto simp del: filter.simps set_filter)
  then show ?thesis
    unfolding sjoin_left_def using assms(1) by (auto simp del: set_filter intro!: bexI [of _ "(name, geom)"])
qed

lemma airbnb_import_converted:
  "airbnb_import contains csv city_sa2 = Inr rows \<Longrightarrow>
   convert_rows (sjoin_left contains city_sa2
     (map fillna_bedrooms (filter (\<lambda>l. room_type l = ''Entire home/apt'') csv))) = Inr rows"
  by (simp add: airbnb_import_def split: if_splits)

text \<open>
  A listing of the file that is an entire home and lies in an area has a row in the frame
  \<^verbatim>\<open>airbnb_import\<close> returns, with that area, its bedroom category and its weekly price.
\<close>

lemma airbnb_import_row:
  assumes "airbnb_import contains csv city_sa2 = Inr rows" "l \<in> set csv"
    "room_type l = ''Entire home/apt''" "(name, geom) \<in> set city_sa2" "contains geom (latlong l)"
  shows "\<exists>w. weekly_price_cell (price l) = Inr w \<and> (name, listing_category l, w) \<in> set rows"
proof -
  let ?df = "map fillna_bedrooms (filter (\<lambda>l. room_type l = ''Entire home/apt'') csv)"
  have "fillna_bedrooms l \<in> set ?df" using assms(2,3) by simp
  moreover have "contains geom (latlong (fillna_bedrooms l))"
    using assms(5) by (simp add: fillna_bedrooms_def)
  ultimately have "(name, price (fillna_bedrooms l), bedrooms (fillna_bedrooms l))
      \<in> set (sjoin_left contains city_sa2 ?df)"
    using assms(4) by (intro sjoin_left_member)
  moreover have "convert_rows (sjoin_left contains city_sa2 ?df) = Inr rows"
    using assms(1) by (rule airbnb_import_converted)
  ultimately have "\<exists>w. weekly_price_cell (price (fillna_bedrooms l)) = Inr w
      \<and> (name, bedrooms_category (bedrooms (fillna_bedrooms l)), w) \<in> set rows"
    by (intro convert_rows_member)
  then show ?thesis by (simp add: listing_category_def fillna_bedrooms_def)
qed

lemma listing_category_small:
  "n \<le> 7 \<Longrightarrow> listing_category (l\<lparr>bedrooms := Some n\<rparr>) = [digit_char n]"
  by (simp add: listing_category_def fillna_bedrooms_def bedrooms_category_def str_float_def)

text \<open>
  Claim C7. A listing without a bedroom count is put in category \<^verbatim>\<open>1\<close>, a listing
  with more than 7 bedrooms (12, for example) in category \<^verbatim>\<open>8 or more\<close>, and a
  listing with 1 to 7 bedrooms in the category of its own number; that category is the
  one in the listing's row of the frame \<^verbatim>\<open>airbnb_import\<close> returns.
\<close>

theorem bedroom_count_capping:
  "(bedrooms l = None \<longrightarrow> listing_category l = ''1'')
   \<and> (\<forall>n. bedrooms l = Some n \<and> 7 < n \<longrightarrow> listing_category l = ''8 or more'')
   \<and> map (\<lambda>n. listing_category (l\<lparr>bedrooms := Some n\<rparr>)) [1, 2, 3, 4, 5, 6, 7]
       = [''1'', ''2'', ''3'', ''4'', ''5'', ''6'', ''7'']
   \<and> listing_category (l\<lparr>bedrooms := Some 12\<rparr>) = ''8 or more''
   \<and> (airbnb_import contains csv city_sa2 = Inr rows \<and> l \<in> set csv
        \<and> room_type l = ''Entire home/apt'' \<and> (name, geom) \<in> set city_sa2
        \<and> contains geom (latlong l)
       \<longrightarrow> (\<exists>w. (name, listing_category l, w) \<in> set rows))"
proof (intro conjI impI allI)
  assume "bedrooms l = None"
  then show "listing_category l = ''1''"
    by (simp add: listing_category_def fillna_bedrooms_def bedrooms_category_def str_float_def
        digit_char_def decimal_digits_def)
next
  fix n assume "bedrooms l = Some n \<and> 7 < n"
  then show "listing_category l = ''8 or more''"
    by (simp add: listing_category_def fillna_bedrooms_def bedrooms_category_def)
next
  show "map (\<lambda>n. listing_category (l\<lparr>bedrooms := Some n\<rparr>)) [1, 2, 3, 4, 5, 6, 7]
       = [''1'', ''2'', ''3'', ''4'', ''5'', ''6'', ''7'']"
    by (simp add: listing_category_small digit_char_def decimal_digits_def)
next
  show "listing_category (l\<lparr>bedrooms := Some 12\<rparr>) = ''8 or more''"
    by (simp add: listing_category_def fillna_bedrooms_def bedrooms_category_def)
next
  assume "airbnb_import contains csv city_sa2 = Inr rows \<and> l \<in> set csv
        \<and> room_type l = ''Entire home/apt'' \<and> (name, geom) \<in> set city_sa2
        \<and> contains geom (latlong l)"
  then show "\<exists>w. (name, listing_category l, w) \<in> set rows"
    using airbnb_import_row [of contains csv city_sa2 rows l name geom] by blast
qed

theorem bedroom_count_capping_witness:
  "airbnb_import (=) [ex_listing ''A'' None, ex_listing ''A'' (Some 12), ex_listing ''B'' (Some 3)] ex_sa2
     = Inr [(''A'', ''1'', Some 8638), (''A'', ''8 or more'', Some 8638), (''B'', ''3'', Some 8638)]
   \<and> listing_category (ex_listing ''A'' None) = ''1''
   \<and> listing_category (ex_listing ''A'' (Some 12)) = ''8 or more''"
proof -
  have "airbnb_import (=) [ex_listing ''A'' None, ex_listing ''A'' (Some 12), ex_listing ''B'' (Some 3)] ex_sa2
     = Inr [(''A'', ''1'', Some 8638), (''A'', ''8 or more'', Some 8638), (''B'', ''3'', Some 8638)]"
    by (simp add: airbnb_import_def sjoin_left_def ex_listing_def ex_sa2_def fillna_bedrooms_def
        weekly_price_cell_def weekly_price_def py_float_def strip_blanks_def is_space_def
        unsigned_float_def mantissa_def opt_digitpart_def digit_val_def
        decimal_digits_def NIGHTS_IN_WEEK_def bedrooms_category_def str_float_def digit_char_def)
  moreover have "listing_category (ex_listing ''A'' None) = ''1''"
    using bedroom_count_capping [of "ex_listing ''A'' None" "(=)" "[]" "[]" "[]" "[]" "[]"]
    by (simp add: ex_listing_def)
  moreover have "listing_category (ex_listing ''A'' (Some 12)) = ''8 or more''"
    using bedroom_count_capping [of "ex_listing ''A'' (Some 12)" "(=)" "[]" "[]" "[]" "[]" "[]"]
    by (simp add: ex_listing_def)
  ultimately show ?thesis by blast
qed


subsection \<open>The lookup tables\<close>




subsection \<open>What add_ratios does to the frame it is given\<close>









subsection \<open>End to end\<close>

text \<open>
  Claim C4, evaluated on the program. Area \<open>A\<close> has 5 rented one-bedroom households and 3
  one-bedroom listings, area \<open>B\<close> has no rental and no listing. The left spatial join
  keeps \<open>B\<close> with empty listing columns, its bedroom text becomes \<^verbatim>\<open>nan\<close>, and
  \<^verbatim>\<open>airbnb_count\<close> counts that row in the total of \<open>B\<close>. The returned frame has 18
  rows (2 areas, 9 categories), and 4 rows when the categories are the two of the scenario;
  in both the row (\<open>B\<close>, total) has listing count 1, rental count 0 and count ratio -1,
  not 0.
\<close>

theorem scenario_total_count_ratio:
  "airbnb_import (=) scenario_csv ex_sa2
     = Inr [(''A'', ''1'', Some 700), (''A'', ''1'', Some 700), (''A'', ''1'', Some 700),
            (''B'', ''nan'', None)]
   \<and> frame_summary (''B'', ''total'') (city_agg_df (=) scenario_rental ex_sa2 scenario_csv)
     = Inr (Some (18, [(1, 0, Some (- 1))]))
   \<and> frame_summary (''B'', ''total'')
       (city_agg_df_with [''1'', ''total''] (=) scenario_rental_two ex_sa2 scenario_csv)
     = Inr (Some (4, [(1, 0, Some (- 1))]))"
proof (intro conjI)
  show "airbnb_import (=) scenario_csv ex_sa2
     = Inr [(''A'', ''1'', Some 700), (''A'', ''1'', Some 700), (''A'', ''1'', Some 700),
            (''B'', ''nan'', None)]"
    by code_simp
  show "frame_summary (''B'', ''total'') (city_agg_df (=) scenario_rental ex_sa2 scenario_csv)
     = Inr (Some (18, [(1, 0, Some (- 1))]))"
    by code_simp
  show "frame_summary (''B'', ''total'')
       (city_agg_df_with [''1'', ''total''] (=) scenario_rental_two ex_sa2 scenario_csv)
     = Inr (Some (4, [(1, 0, Some (- 1))]))"
    by code_simp
qed

text \<open>
  Claim C3, evaluated on the program. When only the one-bedroom group of the rental frame
  has households, \<^verbatim>\<open>assign_rental_price\<close> selects a bucket for that category alone,
  \<^verbatim>\<open>fill_rental_price\<close> takes its list of categories from those rows, and the filled
  frame has one row for the area instead of the nine of the canonical enumeration; the
  aggregate frame then has rows without a rental price.
\<close>

theorem filled_rental_price_misses_categories:
  "filled_rental_price sparse_rental = Inr [((''A'', ''1''), ''$300 - $399'', Num 4, Num 349.5)]
   \<and> length (all_combinations (unique (df_index sparse_rental)) BEDROOMS_ORDER) = 9
   \<and> map fst (airbnb_count [] (df_index sparse_rental))
       = all_combinations (unique (df_index sparse_rental)) BEDROOMS_ORDER
   \<and> aggregate_df_with BEDROOMS_ORDER (=) sparse_rental [(''A'', ''A'')] scenario_csv = Inr None"
proof (intro conjI)
  show "filled_rental_price sparse_rental = Inr [((''A'', ''1''), ''$300 - $399'', Num 4, Num 349.5)]"
    by code_simp
  show "length (all_combinations (unique (df_index sparse_rental)) BEDROOMS_ORDER) = 9"
    by code_simp
  show "map fst (airbnb_count [] (df_index sparse_rental))
       = all_combinations (unique (df_index sparse_rental)) BEDROOMS_ORDER"
    by code_simp
  show "aggregate_df_with BEDROOMS_ORDER (=) sparse_rental [(''A'', ''A'')] scenario_csv = Inr None"
    by code_simp
qed



subsection \<open>Keys of the completed frames\<close>

text \<open>
  The right merge yields the keys of the right frame, each once, when no key occurs twice
  on the left. For the two listing frames this gives one row for every area of the rental
  index and every category of \<open>BEDROOMS_ORDER\<close>, sorted by area and category; for
  the filled rental prices it gives one row for every area and every category that occurs
  among the selected buckets.
\<close>





lemma filter_key_distinct:
  "distinct (map fst left) \<Longrightarrow> length (filter (\<lambda>(k', v). k' = k) left) \<le> 1"
proof (induction left)
  case Nil
  then show ?case by simp
next
  case (Cons x left)
  show ?case
  proof (cases "fst x = k")
    case True
    then have "k \<notin> fst ` set left" using Cons.prems by auto
    then have "filter (\<lambda>(k', v). k' = k) left = []"
      by (force simp: filter_empty_conv image_iff)
    then show ?thesis using True by (simp add: case_prod_unfold)
  next
    case False
    then show ?thesis using Cons by (simp add: case_prod_unfold)
  qed
qed

lemma merge_right_keys:
  assumes "distinct (map fst left)"
  shows "map fst (merge_right left right) = right"
proof -
  have one: "map fst (case filter (\<lambda>(k', v). k' = k) left of
           [] \<Rightarrow> [(k, None)]
         | ms \<Rightarrow> map (\<lambda>(k', v). (k, Some v)) ms) = [k]" for k
  proof (cases "filter (\<lambda>(k', v). k' = k) left")
    case Nil
    then show ?thesis by simp
  next
    case (Cons m ms)
    with filter_key_distinct [OF assms, of k] have "ms = []" by simp
    with Cons show ?thesis by (simp add: case_prod_unfold)
  qed
  show ?thesis
    unfolding merge_right_def by (induction right) (simp_all add: one)
qed

lemma map_fst_fillna: "map fst (fillna d df) = map fst df"
  by (simp add: fillna_def case_prod_unfold comp_def)

lemma map_fst_insort_key: "map fst (insort_key fst x xs) = insort (fst x) (map fst xs)"
  by (induction xs) auto

lemma map_fst_sort_values: "map fst (sort_values df) = sort (map fst df)"
  unfolding sort_values_def by (induction df) (simp_all add: map_fst_insort_key)

lemma sorted_all_combinations:
  "sorted as \<Longrightarrow> distinct as \<Longrightarrow> sorted bs \<Longrightarrow> sorted (all_combinations as bs)"
proof (induction as)
  case Nil
  then show ?case by (simp add: all_combinations_def)
next
  case (Cons a as)
  have tail: "sorted (all_combinations as bs)" using Cons by simp
  have head: "sorted (map (\<lambda>b. (a, b)) bs)"
    using Cons.prems(3) by (induction bs) auto
  have "\<forall>x\<in>set (map (\<lambda>b. (a, b)) bs). \<forall>y\<in>set (all_combinations as bs). x \<le> y"
    using Cons.prems(1,2) by (auto simp: set_all_combinations)
  with tail head show ?case
    by (simp add: all_combinations_def sorted_append)
qed

lemma distinct_all_combinations:
  "distinct as \<Longrightarrow> distinct bs \<Longrightarrow> distinct (all_combinations as bs)"
proof (induction as)
  case Nil
  then show ?case by (simp add: all_combinations_def)
next
  case (Cons a as)
  have "distinct (map (\<lambda>b. (a, b)) bs)"
    using Cons.prems(2) by (simp add: distinct_map inj_on_def)
  moreover have "distinct (all_combinations as bs)" using Cons by simp
  moreover have "set (map (\<lambda>b. (a, b)) bs) \<inter> set (all_combinations as bs) = {}"
    using Cons.prems(1) by (auto simp: set_all_combinations)
  ultimately show ?case
    using Cons.prems by (simp add: all_combinations_def)
qed

lemma length_all_combinations: "length (all_combinations as bs) = length as * length bs"
  by (induction as) (simp_all add: all_combinations_def)

lemma sort_all_combinations:
  assumes "distinct as" "distinct bs" "sorted bs"
  shows "sort (all_combinations as bs) = all_combinations (sort as) bs"
proof (rule sorted_distinct_set_unique)
  show "sorted (sort (all_combinations as bs))" by simp
  show "distinct (sort (all_combinations as bs))"
    using assms by (simp add: distinct_all_combinations)
  show "sorted (all_combinations (sort as) bs)"
    using assms by (intro sorted_all_combinations) simp_all
  show "distinct (all_combinations (sort as) bs)"
    using assms by (intro distinct_all_combinations) simp_all
  show "set (sort (all_combinations as bs)) = set (all_combinations (sort as) bs)"
    by (simp add: set_all_combinations)
qed

lemma BEDROOMS_ORDER_sorted: "sorted BEDROOMS_ORDER \<and> distinct BEDROOMS_ORDER \<and> length BEDROOMS_ORDER = 9"
  by (simp add: BEDROOMS_ORDER_def)

lemma groupby_size_keys: "map fst (groupby_size ks) = sort (remdups ks)"
  by (simp add: groupby_size_def comp_def)

lemma airbnb_count_left_distinct:
  assumes "\<forall>k\<in>set ks. snd k \<noteq> ''total''"
  shows "distinct (map fst (groupby_size ks @ total_counts (groupby_size ks)))"
proof -
  have g: "map fst (groupby_size ks) = sort (remdups ks)"
    by (simp add: groupby_size_def comp_def)
  have t: "map fst (total_counts df) = map (\<lambda>sa2. (sa2, ''total'')) (sort (remdups (map (\<lambda>(k, n). fst k) df)))" for df :: "(key \<times> int) list"
    by (simp add: total_counts_def comp_def)
  have "distinct (map fst (groupby_size ks))" by (simp add: g)
  moreover have "distinct (map fst (total_counts (groupby_size ks)))"
    by (simp add: t distinct_map inj_on_def)
  moreover have "set (map fst (groupby_size ks)) \<inter> set (map fst (total_counts (groupby_size ks))) = {}"
    using assms by (auto simp: g t)
  ultimately show ?thesis by simp
qed

lemma airbnb_count_with_keys:
  assumes "\<forall>(sa2, bedrooms, price)\<in>set city_airbnb_df. bedrooms \<noteq> ''total''"
  shows "map fst (airbnb_count_with bs city_airbnb_df rental_index)
           = sort (all_combinations (unique rental_index) bs)"
proof -
  let ?ks = "map (\<lambda>(sa2, bedrooms, price). (sa2, bedrooms)) city_airbnb_df"
  have "\<forall>k\<in>set ?ks. snd k \<noteq> ''total''" using assms by auto
  then have "distinct (map fst (groupby_size ?ks @ total_counts (groupby_size ?ks)))"
    by (rule airbnb_count_left_distinct)
  then show ?thesis
    by (simp add: airbnb_count_with_def Let_def map_fst_sort_values map_fst_fillna merge_right_keys)
qed

lemma bedrooms_category_not_total: "bedrooms_category b \<noteq> ''total''"
proof (cases b)
  case None
  then show ?thesis by (simp add: bedrooms_category_def)
next
  case (Some n)
  show ?thesis
  proof (cases "n > 7")
    case True
    with Some show ?thesis by (simp add: bedrooms_category_def)
  next
    case False
    with Some show ?thesis by (simp add: bedrooms_category_def str_float_def)
  qed
qed

lemma convert_rows_bedrooms:
  "convert_rows joined = Inr rows \<Longrightarrow> \<forall>(sa2, bedrooms, price)\<in>set rows. bedrooms \<noteq> ''total''"
proof (induction joined arbitrary: rows)
  case Nil
  then show ?case by simp
next
  case (Cons j joined)
  obtain n p b where j: "j = (n, p, b)" by (cases j) auto
  from Cons.prems j obtain w rows' where
    r': "convert_rows joined = Inr rows'" and rows: "rows = (n, bedrooms_category b, w) # rows'"
    by (auto split: sum.splits)
  from Cons.IH [OF r'] rows show ?case by (simp add: bedrooms_category_not_total)
qed

lemma airbnb_count_complete:
  assumes "airbnb_import contains csv city_sa2 = Inr city_airbnb_df"
  shows "map fst (airbnb_count city_airbnb_df rental_index)
           = all_combinations (sort (unique rental_index)) BEDROOMS_ORDER"
    and "length (airbnb_count city_airbnb_df rental_index) = length (unique rental_index) * 9"
    and "distinct (map fst (airbnb_count city_airbnb_df rental_index))"
proof -
  have "\<forall>(sa2, bedrooms, price)\<in>set city_airbnb_df. bedrooms \<noteq> ''total''"
    by (rule convert_rows_bedrooms [OF airbnb_import_converted [OF assms]])
  then have k: "map fst (airbnb_count city_airbnb_df rental_index)
      = sort (all_combinations (unique rental_index) BEDROOMS_ORDER)"
    unfolding airbnb_count_def by (rule airbnb_count_with_keys)
  then show 1: "map fst (airbnb_count city_airbnb_df rental_index)
           = all_combinations (sort (unique rental_index)) BEDROOMS_ORDER"
    by (simp add: sort_all_combinations distinct_unique BEDROOMS_ORDER_sorted)
  have "length (map fst (airbnb_count city_airbnb_df rental_index)) = length (unique rental_index) * 9"
    unfolding 1 by (simp add: length_all_combinations BEDROOMS_ORDER_sorted)
  then show "length (airbnb_count city_airbnb_df rental_index) = length (unique rental_index) * 9"
    by simp
  show "distinct (map fst (airbnb_count city_airbnb_df rental_index))"
    unfolding k by (simp add: distinct_all_combinations distinct_unique BEDROOMS_ORDER_sorted)
qed


lemma airbnb_price_with_keys:
  assumes "\<forall>(sa2, bedrooms, price)\<in>set city_airbnb_df. bedrooms \<noteq> ''total''"
  shows "map fst (airbnb_price_with bs city_airbnb_df rental_index)
           = sort (all_combinations (unique rental_index) bs)"
proof -
  let ?ks = "map (\<lambda>(sa2, bedrooms, price). (sa2, bedrooms)) city_airbnb_df"
  let ?as = "map (\<lambda>(sa2, bedrooms, price). sa2) city_airbnb_df"
  let ?by_key = "map (\<lambda>k. (k, median (map (\<lambda>(sa2, bedrooms, price). price)
                                   (filter (\<lambda>(sa2, bedrooms, price). (sa2, bedrooms) = k) city_airbnb_df))))
                (sort (remdups ?ks))"
  let ?total = "map (\<lambda>a. ((a, ''total''), median (map (\<lambda>(sa2, bedrooms, price). price)
                                   (filter (\<lambda>(sa2, bedrooms, price). sa2 = a) city_airbnb_df))))
                (sort (remdups ?as))"
  have k: "map fst ?by_key = sort (remdups ?ks)" by (simp add: comp_def)
  have t: "map fst ?total = map (\<lambda>a. (a, ''total'')) (sort (remdups ?as))" by (simp add: comp_def)
  have "distinct (map fst ?by_key)" by (simp only: k distinct_sort distinct_remdups)
  moreover have "distinct (map fst ?total)"
    by (simp only: t) (simp add: distinct_map inj_on_def)
  moreover have "set (map fst ?by_key) \<inter> set (map fst ?total) = {}"
    using assms by (simp only: k t) auto
  ultimately have "distinct (map fst (?by_key @ ?total))" by (simp only: map_append distinct_append)
  then have "map fst (merge_right (?by_key @ ?total) (all_combinations (unique rental_index) bs))
      = all_combinations (unique rental_index) bs"
    by (rule merge_right_keys)
  then show ?thesis
    by (simp add: airbnb_price_with_def Let_def map_fst_sort_values case_prod_unfold comp_def)
qed

lemma airbnb_price_complete:
  assumes "airbnb_import contains csv city_sa2 = Inr city_airbnb_df"
  shows "map fst (airbnb_price city_airbnb_df rental_index)
           = all_combinations (sort (unique rental_index)) BEDROOMS_ORDER"
proof -
  have "\<forall>(sa2, bedrooms, price)\<in>set city_airbnb_df. bedrooms \<noteq> ''total''"
    by (rule convert_rows_bedrooms [OF airbnb_import_converted [OF assms]])
  then have "map fst (airbnb_price city_airbnb_df rental_index)
      = sort (all_combinations (unique rental_index) BEDROOMS_ORDER)"
    unfolding airbnb_price_def by (rule airbnb_price_with_keys)
  then show ?thesis
    by (simp add: sort_all_combinations distinct_unique BEDROOMS_ORDER_sorted)
qed


lemma airbnb_count_absent_zero:
  assumes "sa2 \<in> set rental_index" "b \<in> set bs" "b \<noteq> ''total''"
    "\<forall>p. (sa2, b, p) \<notin> set city_airbnb_df"
  shows "((sa2, b), 0) \<in> set (airbnb_count_with bs city_airbnb_df rental_index)"
proof -
  let ?ks = "map (\<lambda>(sa2, bedrooms, price). (sa2, bedrooms)) city_airbnb_df"
  let ?left = "groupby_size ?ks @ total_counts (groupby_size ?ks)"
  have "(sa2, b) \<notin> set ?ks" using assms(4) by auto
  moreover have "fst ` set (groupby_size ?ks) = set ?ks"
    by (simp only: groupby_size_keys set_map [symmetric] set_sort set_remdups)
  ultimately have "(sa2, b) \<notin> fst ` set (groupby_size ?ks)"
    by simp
  moreover have "(sa2, b) \<notin> fst ` set (total_counts (groupby_size ?ks))"
    using assms(3) by (auto simp: total_counts_def)
  ultimately have "(sa2, b) \<notin> fst ` set ?left" by auto
  moreover have "(sa2, b) \<in> set (all_combinations (unique rental_index) bs)"
    using assms(1,2) by (simp add: set_all_combinations set_unique)
  ultimately have "((sa2, b), None) \<in> set (merge_right ?left (all_combinations (unique rental_index) bs))"
    by (intro merge_right_absent)
  then have "((sa2, b), 0) \<in> set (fillna NA_REPLACEMENT (merge_right ?left (all_combinations (unique rental_index) bs)))"
    by (force simp: fillna_def NA_REPLACEMENT_def)
  then show ?thesis
    by (simp add: airbnb_count_with_def Let_def sort_values_def)
qed

lemma fill_rental_price_keys:
  assumes "distinct (map fst incomplete)" "fill_rental_price rental_index incomplete = Inr rows"
  shows "map fst rows = sort (all_combinations (unique rental_index)
                                (unique (map (\<lambda>((sa2, bedrooms), price_str). bedrooms) incomplete)))"
proof -
  have ne: "incomplete \<noteq> []" using assms(2) by (auto simp: fill_rental_price_def)
  show ?thesis
    using assms(2) ne
    by (auto simp: fill_rental_price_def Let_def comp_def case_prod_unfold map_fst_sort_values
        map_fst_fillna merge_right_keys [OF assms(1)])
qed



end
